theory Spec2Isabelle
  imports Complex_Main "HOL-Library.Sublist"
begin

section \<open>Page transitions (page-transitions script, second half of part\_000)\<close>

text \<open>
  The script keeps one module variable, \<open>isTransitioning\<close>, and works on the document:
  title, body class, the \<open>main\<close>, \<open>header\<close> and \<open>nav\<close> elements and the
  \<open>.page-transition-overlay\<close> element. A \<open>className\<close> is modelled as its list of class
  tokens; \<open>classList.add\<close> and \<open>classList.remove\<close> work on the tokens.
  The regions are modelled side by side (no region nested inside another).
  A class attribute is taken to hold no token twice.

  The script passes URLs around as strings: the \<open>href\<close> attribute as written, or
  \<open>window.location.href\<close>. The browser resolves the string given to \<open>fetch\<close> and to
  \<open>history.pushState\<close> against the URL of the document; its URL parser is part of the
  state (\<open>parse_url\<close>, from the base URL and the string to the parsed URL), since the
  script does not contain it. The strings the handler lets through have parsed already:
  the anchor has the page's hostname.
\<close>

type_synonym url = string
type_synonym classes = "string list"

text \<open>The exceptions that the modelled code can raise.\<close>

datatype js_error = TypeError | ReferenceError | SecurityError

text \<open>A parsed URL: its serialisation and the components that make its origin.\<close>

record parsed_url =
  u_href :: url
  u_protocol :: string
  u_hostname :: string
  u_port :: string

text \<open>
  A session history entry made by \<open>pushState({ url: url }, '', url)\<close>: the state object's
  \<open>url\<close> property and the URL of the entry.
\<close>

record history_entry =
  state_url :: url
  entry_url :: url

definition classList_add :: "string \<Rightarrow> classes \<Rightarrow> classes" where
  "classList_add c cs = (if c \<in> set cs then cs else cs @ [c])"

definition classList_remove :: "string \<Rightarrow> classes \<Rightarrow> classes" where
  "classList_remove c cs = filter (\<lambda>x. x \<noteq> c) cs"

text \<open>\<open>String.prototype.startsWith\<close>.\<close>

definition startsWith :: "string \<Rightarrow> string \<Rightarrow> bool" where
  "startsWith s p = prefix p s"

text \<open>
  An element with a class list and markup. For \<open>header\<close>, \<open>logo\<close> is the \<open>.logo\<close>
  element inside it, if any, with its \<open>src\<close> attribute, if any; the markup string is
  kept as it was fetched when the script sets that attribute again.
\<close>

record region =
  className :: classes
  innerHTML :: string

record header_region = region +
  logo :: "string option option"

text \<open>The document \<open>DOMParser\<close> builds from a response body (\<open>newDoc\<close>).\<close>

record new_doc =
  doc_title :: string
  doc_body_class :: classes
  doc_main :: "region option"
  doc_header :: "header_region option"
  doc_nav :: "string option"

text \<open>
  How a \<open>fetch\<close> promise settles: rejected (network error), or fulfilled with a response
  that has an \<open>ok\<close> flag and a body, given by the document it parses to.
\<close>

datatype response = NetworkError | Response bool new_doc

text \<open>
  What the script has scheduled and not yet run: the callbacks of \<open>setTimeout\<close> and the
  continuations of \<open>fetch\<close>. The pop-state callbacks close over the \<open>main\<close> and
  \<open>overlay\<close> elements looked up when the event came (present or not); the clean-up
  callback of the link path closes over the \<open>main\<close> looked up by the callback before it.
\<close>

datatype task =
    FetchTimer url
  | FetchInFlight url
  | EnterTimer
  | CleanupTimer bool
  | PopFetchTimer url bool bool
  | PopFetchInFlight url bool bool
  | PopEnterTimer bool bool
  | PopCleanupTimer

text \<open>The anchor element found by \<open>e.target.closest('a')\<close>, with what the handler reads.\<close>

record anchor =
  a_href :: "string option"
  a_protocol :: string
  a_hostname :: string
  a_port :: string
  a_target :: "string option"
  a_download :: bool

record page =
  isTransitioning :: bool
  loc_href :: url
  loc_protocol :: string
  loc_hostname :: string
  loc_port :: string
  history_entries :: "history_entry list"
  cur_title :: string
  body_class :: classes
  cur_main :: "region option"
  cur_header :: "header_region option"
  cur_nav :: "string option"
  overlay :: "classes option"
  scrolled_top :: nat
  pending :: "task list"
  fetches :: "url list"
  requested :: "url list"
  href_assigned :: "url list"
  reloads :: nat
  console_errors :: "string list"
  reinit_runs :: nat
  parse_url :: "url \<Rightarrow> string \<Rightarrow> parsed_url"

text \<open>\<open>init\<close>: create the overlay if there is none, mark \<open>main\<close> with \<open>fade-in\<close>.\<close>

definition init :: "page \<Rightarrow> page" where
  "init st =
    (let st1 = (case overlay st of
                  None \<Rightarrow> st\<lparr>overlay := Some [''page-transition-overlay'']\<rparr>
                | Some _ \<Rightarrow> st)
     in st1\<lparr>cur_main :=
              map_option (\<lambda>m. m\<lparr>className := classList_add ''fade-in'' (className m)\<rparr>)
                (cur_main st1)\<rparr>)"

text \<open>
  Loading the script on a page: \<open>let isTransitioning = false\<close>, nothing scheduled yet,
  then \<open>init\<close>.
\<close>

definition page_load :: "page \<Rightarrow> page" where
  "page_load st = init (st\<lparr>isTransitioning := False, pending := []\<rparr>)"

text \<open>
  \<open>reinitializeScripts\<close> acts on the particle system, the timeline and the scroll
  animations, which are modelled in their own sections; here the call is counted.
\<close>

definition reinitializeScripts :: "page \<Rightarrow> page" where
  "reinitializeScripts st = st\<lparr>reinit_runs := Suc (reinit_runs st)\<rparr>"

text \<open>The exit state both \<open>navigateTo\<close> and \<open>handlePopState\<close> apply.\<close>

definition exit_visuals :: "page \<Rightarrow> page" where
  "exit_visuals st =
    st\<lparr>body_class := classList_remove ''page-loaded'' (classList_add ''transitioning'' (body_class st)),
       cur_main := map_option (\<lambda>m. m\<lparr>className := classList_add ''fade-out'' (className m)\<rparr>) (cur_main st),
       overlay := map_option (classList_add ''active'') (overlay st)\<rparr>"

definition navigateTo :: "url \<Rightarrow> page \<Rightarrow> page" where
  "navigateTo u st =
    (if isTransitioning st then st
     else (let st1 = exit_visuals (st\<lparr>isTransitioning := True\<rparr>)
           in st1\<lparr>pending := pending st1 @ [FetchTimer u]\<rparr>))"

text \<open>JavaScript's \<open>!href\<close> for a string or \<open>null\<close>.\<close>

definition falsy :: "string option \<Rightarrow> bool" where
  "falsy h = (case h of None \<Rightarrow> True | Some s \<Rightarrow> s = [])"

definition skip_link :: "anchor \<Rightarrow> page \<Rightarrow> bool" where
  "skip_link link st =
    (let href = (case a_href link of None \<Rightarrow> [] | Some s \<Rightarrow> s) in
     falsy (a_href link) \<or>
     a_hostname link \<noteq> loc_hostname st \<or>
     startsWith href ''#'' \<or>
     startsWith href ''mailto:'' \<or>
     startsWith href ''tel:'' \<or>
     a_target link = Some ''_blank'' \<or>
     a_download link \<or>
     isTransitioning st)"

text \<open>
  \<open>handleLinkClick\<close>: the result says whether \<open>e.preventDefault()\<close> was called.
  The argument is the closest anchor of the click target, if there is one.
  (A \<open>null\<close> href is skipped by \<open>!href\<close>, so its branch below is never reached.)
\<close>

definition handleLinkClick :: "anchor option \<Rightarrow> page \<Rightarrow> bool \<times> page" where
  "handleLinkClick e st =
    (case e of
       None \<Rightarrow> (False, st)
     | Some link \<Rightarrow>
         if skip_link link st then (False, st)
         else (case a_href link of
                 None \<Rightarrow> (False, st)
               | Some href \<Rightarrow> (True, navigateTo href st)))"

text \<open>The splice of \<open>main\<close>, \<open>header\<close> and \<open>nav\<close>, written twice in the source.\<close>

definition splice_main :: "new_doc \<Rightarrow> page \<Rightarrow> page" where
  "splice_main d st =
    (case (cur_main st, doc_main d) of
       (Some cur, Some new) \<Rightarrow>
         st\<lparr>cur_main := Some (cur\<lparr>innerHTML := innerHTML new, className := className new\<rparr>)\<rparr>
     | _ \<Rightarrow> st)"

definition splice_header :: "new_doc \<Rightarrow> page \<Rightarrow> page" where
  "splice_header d st =
    (case (cur_header st, doc_header d) of
       (Some cur, Some new) \<Rightarrow>
         st\<lparr>cur_header := Some (cur\<lparr>className := className new, innerHTML := innerHTML new,
              logo := (case logo new of
                         None \<Rightarrow> None
                       | Some originalSrc \<Rightarrow>
                           Some (Some (case originalSrc of None \<Rightarrow> ''null'' | Some s \<Rightarrow> s)))\<rparr>)\<rparr>
     | _ \<Rightarrow> st)"

definition splice_nav :: "new_doc \<Rightarrow> page \<Rightarrow> page" where
  "splice_nav d st =
    (case (doc_nav d, cur_nav st) of
       (Some newNav, None) \<Rightarrow> (if cur_header st \<noteq> None then st\<lparr>cur_nav := Some newNav\<rparr> else st)
     | (None, Some currentNav) \<Rightarrow> st\<lparr>cur_nav := None\<rparr>
     | (Some newNav, Some currentNav) \<Rightarrow> st\<lparr>cur_nav := Some newNav\<rparr>
     | (None, None) \<Rightarrow> st)"

definition splice_regions :: "new_doc \<Rightarrow> page \<Rightarrow> page" where
  "splice_regions d st =
    (let st1 = st\<lparr>cur_title := doc_title d\<rparr>;
         st2 = st1\<lparr>body_class := classList_add ''transitioning'' (doc_body_class d)\<rparr>;
         st3 = splice_nav d (splice_header d (splice_main d st2))
     in st3\<lparr>scrolled_top := Suc (scrolled_top st3)\<rparr>)"

text \<open>The URL a string stands for in the document as it is now.\<close>

definition resolve :: "string \<Rightarrow> page \<Rightarrow> parsed_url" where
  "resolve u st = parse_url st (loc_href st) u"

text \<open>
  \<open>history.pushState(state, '', url)\<close>: the browser resolves \<open>url\<close> and throws a
  SecurityError unless the result has the scheme, host and port of the document's URL;
  otherwise it adds the entry and makes the resolved URL the location.
\<close>

definition pushState_accepts :: "string \<Rightarrow> page \<Rightarrow> bool" where
  "pushState_accepts u st =
    (u_protocol (resolve u st) = loc_protocol st \<and>
     u_hostname (resolve u st) = loc_hostname st \<and>
     u_port (resolve u st) = loc_port st)"

definition pushState :: "url \<Rightarrow> string \<Rightarrow> page \<Rightarrow> js_error + page" where
  "pushState state_u u st =
    (if pushState_accepts u st
     then Inr (st\<lparr>history_entries := history_entries st @
                      [\<lparr>state_url = state_u, entry_url = u_href (resolve u st)\<rparr>],
                  loc_href := u_href (resolve u st)\<rparr>)
     else Inl SecurityError)"

text \<open>
  \<open>updatePage\<close>: \<open>pushState\<close> is its first effect, so when that throws nothing has
  been changed.
\<close>

definition updatePage :: "new_doc \<Rightarrow> url \<Rightarrow> page \<Rightarrow> js_error + page" where
  "updatePage d u st =
    (case pushState u u st of
       Inl e \<Rightarrow> Inl e
     | Inr st1 \<Rightarrow>
         (let st2 = splice_regions d st1
          in Inr (st2\<lparr>pending := pending st2 @ [EnterTimer]\<rparr>)))"

text \<open>
  \<open>fetchPage\<close>: the call of \<open>fetch\<close> (\<open>fetches\<close> keeps the strings passed,
  \<open>requested\<close> the URLs they resolve to), and what runs when its promise settles. The
  \<open>catch\<close> at the end of the chain also takes what \<open>updatePage\<close> throws.
\<close>

definition fetchPage :: "url \<Rightarrow> page \<Rightarrow> page" where
  "fetchPage u st =
    st\<lparr>fetches := fetches st @ [u],
       requested := requested st @ [u_href (resolve u st)],
       pending := pending st @ [FetchInFlight u]\<rparr>"

definition fetchPage_catch :: "url \<Rightarrow> page \<Rightarrow> page" where
  "fetchPage_catch u st =
    st\<lparr>console_errors := console_errors st @ [''Page transition error:''],
       href_assigned := href_assigned st @ [u]\<rparr>"

definition fetchPage_settled :: "url \<Rightarrow> response \<Rightarrow> page \<Rightarrow> page" where
  "fetchPage_settled u r st =
    (case r of
       NetworkError \<Rightarrow> fetchPage_catch u st
     | Response ok d \<Rightarrow>
         if \<not> ok then fetchPage_catch u st
         else (case updatePage d u st of
                 Inl e \<Rightarrow> fetchPage_catch u st
               | Inr st' \<Rightarrow> st'))"

text \<open>The two timer callbacks of \<open>updatePage\<close> (100 ms, then 500 ms).\<close>

definition enter_callback :: "page \<Rightarrow> page" where
  "enter_callback st =
    (let st1 = st\<lparr>overlay := map_option (classList_remove ''active'') (overlay st)\<rparr>;
         st2 = st1\<lparr>cur_main := map_option
                 (\<lambda>m. m\<lparr>className := classList_add ''fade-in'' (classList_remove ''fade-out'' (className m))\<rparr>)
                 (cur_main st1)\<rparr>;
         st3 = reinitializeScripts st2
     in st3\<lparr>pending := pending st3 @ [CleanupTimer (cur_main st \<noteq> None)]\<rparr>)"

definition cleanup_callback :: "bool \<Rightarrow> page \<Rightarrow> page" where
  "cleanup_callback had_main st =
    st\<lparr>body_class := classList_add ''page-loaded'' (classList_remove ''transitioning'' (body_class st)),
       cur_main := (if had_main
                    then map_option (\<lambda>m. m\<lparr>className := classList_remove ''fade-in'' (className m)\<rparr>) (cur_main st)
                    else cur_main st),
       isTransitioning := False\<rparr>"

text \<open>\<open>handlePopState\<close> and its callbacks.\<close>

definition handlePopState :: "page \<Rightarrow> page" where
  "handlePopState st =
    (if isTransitioning st then st
     else (let u = loc_href st;
               st1 = exit_visuals (st\<lparr>isTransitioning := True\<rparr>)
           in st1\<lparr>pending := pending st1 @ [PopFetchTimer u (cur_main st \<noteq> None) (overlay st \<noteq> None)]\<rparr>))"

definition pop_fetch :: "url \<Rightarrow> bool \<Rightarrow> bool \<Rightarrow> page \<Rightarrow> page" where
  "pop_fetch u had_main had_overlay st =
    st\<lparr>fetches := fetches st @ [u],
       requested := requested st @ [u_href (resolve u st)],
       pending := pending st @ [PopFetchInFlight u had_main had_overlay]\<rparr>"

definition pop_catch :: "page \<Rightarrow> page" where
  "pop_catch st =
    st\<lparr>console_errors := console_errors st @ [''Pop state error:''],
       reloads := Suc (reloads st)\<rparr>"

definition pop_settled :: "bool \<Rightarrow> bool \<Rightarrow> response \<Rightarrow> page \<Rightarrow> page" where
  "pop_settled had_main had_overlay r st =
    (case r of
       NetworkError \<Rightarrow> pop_catch st
     | Response ok d \<Rightarrow>
         (let st1 = splice_regions d st
          in st1\<lparr>pending := pending st1 @ [PopEnterTimer had_main had_overlay]\<rparr>))"

definition pop_enter_callback :: "bool \<Rightarrow> bool \<Rightarrow> page \<Rightarrow> page" where
  "pop_enter_callback had_main had_overlay st =
    (let st1 = (if had_overlay
                then st\<lparr>overlay := map_option (classList_remove ''active'') (overlay st)\<rparr>
                else st);
         st2 = (if had_main
                then st1\<lparr>cur_main := map_option
                       (\<lambda>m. m\<lparr>className := classList_add ''fade-in'' (classList_remove ''fade-out'' (className m))\<rparr>)
                       (cur_main st1)\<rparr>
                else st1);
         st3 = reinitializeScripts st2
     in st3\<lparr>pending := pending st3 @ [PopCleanupTimer]\<rparr>)"

definition pop_cleanup_callback :: "page \<Rightarrow> page" where
  "pop_cleanup_callback st =
    st\<lparr>body_class := classList_add ''page-loaded'' (classList_remove ''transitioning'' (body_class st)),
       cur_main := map_option (\<lambda>m. m\<lparr>className := classList_remove ''fade-in'' (className m)\<rparr>) (cur_main st),
       isTransitioning := False\<rparr>"

text \<open>
  The event loop. A click carries the closest anchor of its target; a pop-state event
  comes after the browser has moved \<open>window.location\<close> to the entry's URL; a scheduled
  callback runs when its timer fires, a fetch continuation when the promise settles.
  Either is named by its position among the scheduled ones.
\<close>

datatype event =
    Click "anchor option"
  | PopState url
  | TimerFires nat
  | FetchSettles nat response

definition unschedule :: "nat \<Rightarrow> page \<Rightarrow> page" where
  "unschedule i st = st\<lparr>pending := take i (pending st) @ drop (Suc i) (pending st)\<rparr>"

fun run_timer :: "task \<Rightarrow> page \<Rightarrow> page option" where
  "run_timer (FetchTimer u) st = Some (fetchPage u st)"
| "run_timer EnterTimer st = Some (enter_callback st)"
| "run_timer (CleanupTimer m) st = Some (cleanup_callback m st)"
| "run_timer (PopFetchTimer u m ov) st = Some (pop_fetch u m ov st)"
| "run_timer (PopEnterTimer m ov) st = Some (pop_enter_callback m ov st)"
| "run_timer PopCleanupTimer st = Some (pop_cleanup_callback st)"
| "run_timer (FetchInFlight u) st = None"
| "run_timer (PopFetchInFlight u m ov) st = None"

fun run_settle :: "task \<Rightarrow> response \<Rightarrow> page \<Rightarrow> page option" where
  "run_settle (FetchInFlight u) r st = Some (fetchPage_settled u r st)"
| "run_settle (PopFetchInFlight u m ov) r st = Some (pop_settled m ov r st)"
| "run_settle _ r st = None"

definition step :: "event \<Rightarrow> page \<Rightarrow> page" where
  "step ev st =
    (case ev of
       Click e \<Rightarrow> snd (handleLinkClick e st)
     | PopState u \<Rightarrow> handlePopState (st\<lparr>loc_href := u\<rparr>)
     | TimerFires i \<Rightarrow>
         (if i < length (pending st)
          then (case run_timer (pending st ! i) (unschedule i st) of None \<Rightarrow> st | Some st' \<Rightarrow> st')
          else st)
     | FetchSettles i r \<Rightarrow>
         (if i < length (pending st)
          then (case run_settle (pending st ! i) r (unschedule i st) of None \<Rightarrow> st | Some st' \<Rightarrow> st')
          else st))"

fun run :: "event list \<Rightarrow> page \<Rightarrow> page" where
  "run [] st = st"
| "run (ev # evs) st = run evs (step ev st)"

text \<open>The transitions in progress: each has exactly one scheduled continuation.\<close>

definition in_progress :: "page \<Rightarrow> nat" where
  "in_progress st = length (pending st)"

definition in_flight :: "page \<Rightarrow> nat" where
  "in_flight st = length (filter (\<lambda>t. case t of FetchInFlight _ \<Rightarrow> True | PopFetchInFlight _ _ _ \<Rightarrow> True | _ \<Rightarrow> False) (pending st))"

text \<open>
  Concrete pages, links and responses used to run the model. The example site is
  \<open>http://example.com\<close>, with all its pages in the root directory; \<open>example_parse\<close>
  is what the browser's URL parser gives for the URLs that occur there.
\<close>

definition example_parse :: "url \<Rightarrow> string \<Rightarrow> parsed_url" where
  "example_parse base u =
    (if startsWith u ''http://example.com:8080/''
     then \<lparr>u_href = u, u_protocol = ''http:'', u_hostname = ''example.com'', u_port = ''8080''\<rparr>
     else if startsWith u ''http://example.com/''
     then \<lparr>u_href = u, u_protocol = ''http:'', u_hostname = ''example.com'', u_port = []\<rparr>
     else if startsWith u ''mailto:''
     then \<lparr>u_href = u, u_protocol = ''mailto:'', u_hostname = [], u_port = []\<rparr>
     else if startsWith u ''/''
     then \<lparr>u_href = ''http://example.com'' @ u, u_protocol = ''http:'',
           u_hostname = ''example.com'', u_port = []\<rparr>
     else \<lparr>u_href = ''http://example.com/'' @ u, u_protocol = ''http:'',
           u_hostname = ''example.com'', u_port = []\<rparr>)"

definition home_page :: page where
  "home_page =
    \<lparr>isTransitioning = False,
     loc_href = ''http://example.com/index.html'',
     loc_protocol = ''http:'', loc_hostname = ''example.com'', loc_port = [],
     history_entries = [],
     cur_title = ''Home'',
     body_class = [''loaded'', ''page-loaded''],
     cur_main = Some \<lparr>className = [], innerHTML = ''<p>home</p>''\<rparr>,
     cur_header = Some \<lparr>className = [], innerHTML = ''<img class=logo src=logo.png>'',
                         logo = Some (Some ''logo.png'')\<rparr>,
     cur_nav = Some ''<nav>menu</nav>'',
     overlay = None,
     scrolled_top = 0, pending = [], fetches = [], requested = [], href_assigned = [],
     reloads = 0, console_errors = [], reinit_runs = 0,
     parse_url = example_parse\<rparr>"

definition about_link :: anchor where
  "about_link =
    \<lparr>a_href = Some ''http://example.com/about.html'', a_protocol = ''http:'', a_hostname = ''example.com'',
     a_port = [], a_target = None, a_download = False\<rparr>"

definition contact_link :: anchor where
  "contact_link =
    \<lparr>a_href = Some ''http://example.com/contact.html'', a_protocol = ''http:'', a_hostname = ''example.com'',
     a_port = [], a_target = None, a_download = False\<rparr>"


definition mailto_link :: anchor where
  "mailto_link =
    \<lparr>a_href = Some ''mailto:me@example.com'', a_protocol = ''mailto:'', a_hostname = [],
     a_port = [], a_target = None, a_download = False\<rparr>"

definition other_port_link :: anchor where
  "other_port_link =
    \<lparr>a_href = Some ''http://example.com:8080/admin.html'', a_protocol = ''http:'',
     a_hostname = ''example.com'', a_port = ''8080'', a_target = None, a_download = False\<rparr>"

definition about_doc :: new_doc where
  "about_doc =
    \<lparr>doc_title = ''About'', doc_body_class = [''dark''],
     doc_main = Some \<lparr>className = [''about''], innerHTML = ''<p>about</p>''\<rparr>,
     doc_header = None, doc_nav = None\<rparr>"


definition not_found_doc :: new_doc where
  "not_found_doc =
    \<lparr>doc_title = ''404 Not Found'', doc_body_class = [],
     doc_main = Some \<lparr>className = [], innerHTML = ''<h1>Not Found</h1>''\<rparr>,
     doc_header = None, doc_nav = None\<rparr>"

text \<open>
  A fetch has failed when its promise is rejected or its response is not \<open>ok\<close>.
\<close>

definition fetch_failed :: "response \<Rightarrow> bool" where
  "fetch_failed r = (case r of NetworkError \<Rightarrow> True | Response ok d \<Rightarrow> \<not> ok)"

text \<open>The invariant of the event loop: nothing, or one continuation of a running transition.\<close>

definition idle_or_single :: "page \<Rightarrow> bool" where
  "idle_or_single st =
    (length (pending st) \<le> 1 \<and> (if pending st = [] then True else isTransitioning st))"

text \<open>
  A link transition to \<open>u\<close>, begun in \<open>st\<close>, at the moment its fetch settles: the exit
  state is applied and the fetch has been issued.
\<close>

definition awaiting :: "url \<Rightarrow> page \<Rightarrow> page" where
  "awaiting u st =
    (exit_visuals (st\<lparr>isTransitioning := True\<rparr>))
      \<lparr>fetches := fetches st @ [u],
       requested := requested st @ [u_href (resolve u st)],
       pending := []\<rparr>"

definition busy_page :: page where
  "busy_page = snd (handleLinkClick (Some about_link) (page_load home_page))"

section \<open>Timeline accordion (timeline.js, and the listener added by \<open>reinitializeScripts\<close>)\<close>

text \<open>
  A \<open>.timeline-item\<close> has a class list, possibly a \<open>.timeline-header\<close> with click listeners
  (in the order they were added), and a bounding rectangle. Items are named by their position
  in the document; the items of the document stay the same while the accordion is used.
  Two anonymous functions are added as click listeners: the one of \<open>initTimeline\<close> and the
  one of \<open>reinitializeScripts\<close>.
\<close>

datatype listener = TimelineListener | ReinitListener

record tl_item =
  item_class :: classes
  item_header :: "listener list option"
  rect_bottom :: real

record timeline =
  tl_items :: "tl_item list"
  container_bottom :: "real option"
  scroll_timers :: "nat list"
  scrolled_into_view :: "nat list"

definition is_active :: "tl_item \<Rightarrow> bool" where
  "is_active it = (''active'' \<in> set (item_class it))"

definition activate :: "tl_item \<Rightarrow> tl_item" where
  "activate it = it\<lparr>item_class := classList_add ''active'' (item_class it)\<rparr>"

definition deactivate :: "tl_item \<Rightarrow> tl_item" where
  "deactivate it = it\<lparr>item_class := classList_remove ''active'' (item_class it)\<rparr>"

definition add_listener :: "listener \<Rightarrow> tl_item \<Rightarrow> tl_item" where
  "add_listener l it =
    (case item_header it of None \<Rightarrow> it | Some ls \<Rightarrow> it\<lparr>item_header := Some (ls @ [l])\<rparr>)"

definition initTimeline :: "timeline \<Rightarrow> timeline" where
  "initTimeline tm =
    (if length (tl_items tm) = 0 then tm
     else tm\<lparr>tl_items := map (add_listener TimelineListener) (tl_items tm)\<rparr>)"

text \<open>The timeline part of \<open>reinitializeScripts\<close>.\<close>

definition reinit_timeline :: "timeline \<Rightarrow> timeline" where
  "reinit_timeline tm =
    (if length (tl_items tm) > 0
     then tm\<lparr>tl_items := map (add_listener ReinitListener) (tl_items tm)\<rparr>
     else tm)"

text \<open>\<open>timelineItems.forEach(otherItem => if (otherItem !== item) ...)\<close>\<close>

definition close_others :: "nat \<Rightarrow> tl_item list \<Rightarrow> tl_item list" where
  "close_others i its = map (\<lambda>(j, it). if j \<noteq> i then deactivate it else it) (enumerate 0 its)"

text \<open>
  The listener of \<open>initTimeline\<close> on the header of item \<open>i\<close>. \<open>on_link\<close> says whether
  \<open>e.target.closest('.timeline-link')\<close> found an element.
\<close>

definition timeline_click :: "bool \<Rightarrow> nat \<Rightarrow> timeline \<Rightarrow> timeline" where
  "timeline_click on_link i tm =
    (if on_link then tm
     else (let isActive = is_active (tl_items tm ! i);
               its = close_others i (tl_items tm)
           in if isActive then tm\<lparr>tl_items := its[i := deactivate (its ! i)]\<rparr>
              else tm\<lparr>tl_items := its[i := activate (its ! i)],
                      scroll_timers := scroll_timers tm @ [i]\<rparr>))"

text \<open>The listener of \<open>reinitializeScripts\<close> on the header of item \<open>i\<close>.\<close>

definition reinit_click :: "nat \<Rightarrow> timeline \<Rightarrow> timeline" where
  "reinit_click i tm =
    (let isActive = is_active (tl_items tm ! i);
         its = map deactivate (tl_items tm)
     in if \<not> isActive then tm\<lparr>tl_items := its[i := activate (its ! i)]\<rparr>
        else tm\<lparr>tl_items := its\<rparr>)"

fun run_listener :: "bool \<Rightarrow> nat \<Rightarrow> listener \<Rightarrow> timeline \<Rightarrow> timeline" where
  "run_listener on_link i TimelineListener tm = timeline_click on_link i tm"
| "run_listener on_link i ReinitListener tm = reinit_click i tm"

text \<open>
  A click that reaches the header of item \<open>i\<close> runs the header's listeners in the order
  they were added. An item that does not exist, or has no header, has no listener.
\<close>

definition click_header :: "bool \<Rightarrow> nat \<Rightarrow> timeline \<Rightarrow> timeline" where
  "click_header on_link i tm =
    (if i < length (tl_items tm)
     then (case item_header (tl_items tm ! i) of
             None \<Rightarrow> tm
           | Some ls \<Rightarrow> fold (run_listener on_link i) ls tm)
     else tm)"

text \<open>
  The callback of \<open>setTimeout(..., 100)\<close> for item \<open>i\<close>: \<open>container\<close> is the result of
  \<open>document.querySelector('.timeline-container')\<close>, and calling a method of \<open>null\<close> throws.
\<close>

definition scroll_callback :: "nat \<Rightarrow> timeline \<Rightarrow> js_error + timeline" where
  "scroll_callback i tm =
    (let itemRect_bottom = rect_bottom (tl_items tm ! i)
     in case container_bottom tm of
          None \<Rightarrow> Inl TypeError
        | Some containerRect_bottom \<Rightarrow>
            if itemRect_bottom > containerRect_bottom
            then Inr (tm\<lparr>scrolled_into_view := scrolled_into_view tm @ [i]\<rparr>)
            else Inr tm)"

definition timer_fires :: "timeline \<Rightarrow> js_error + timeline" where
  "timer_fires tm =
    (case scroll_timers tm of
       [] \<Rightarrow> Inr tm
     | i # rest \<Rightarrow> scroll_callback i (tm\<lparr>scroll_timers := rest\<rparr>))"

text \<open>The items that carry the class \<open>active\<close>, in document order.\<close>

definition active_items :: "timeline \<Rightarrow> nat list" where
  "active_items tm = filter (\<lambda>j. is_active (tl_items tm ! j)) [0..<length (tl_items tm)]"

text \<open>Two timelines: items A (open) and B (closed); the second has no \<open>.timeline-container\<close>.\<close>

definition item_A :: tl_item where
  "item_A = \<lparr>item_class = [''timeline-item'', ''active''], item_header = Some [], rect_bottom = 300\<rparr>"

definition item_B :: tl_item where
  "item_B = \<lparr>item_class = [''timeline-item''], item_header = Some [], rect_bottom = 700\<rparr>"

definition timeline_AB :: timeline where
  "timeline_AB =
    \<lparr>tl_items = [item_A, item_B], container_bottom = Some 600,
     scroll_timers = [], scrolled_into_view = []\<rparr>"

definition timeline_no_container :: timeline where
  "timeline_no_container =
    \<lparr>tl_items = [item_A, item_B], container_bottom = None,
     scroll_timers = [], scrolled_into_view = []\<rparr>"

section \<open>Particle system (first half of part\_000)\<close>

text \<open>
  JavaScript numbers are modelled as reals. \<open>Math.random\<close> is the sequence \<open>rnd\<close> of the
  values it returns, each in \<open>[0, 1)\<close>; the state counts the calls made so far, and every
  call takes the next value. The three loops of \<open>createStars\<close> have the same body up to
  their constants, which \<open>layer_cfg\<close> holds.
\<close>

record star =
  star_x :: real
  star_y :: real
  star_size :: real
  star_color :: "string option"
  twinkleSpeed :: real
  twinklePhase :: real
  minOpacity :: real
  maxOpacity :: real
  star_vx :: real
  star_vy :: real
  initialDistance :: real
  star_layer :: string

record nebula =
  neb_x :: real
  neb_y :: real
  neb_size :: real
  neb_color :: "(nat \<times> nat \<times> nat) option"
  neb_opacity :: real
  neb_pulseSpeed :: real
  neb_pulsePhase :: real
  neb_vx :: real
  neb_vy :: real

record cluster =
  cl_x :: real
  cl_y :: real
  cl_size :: real
  cl_color :: "(nat \<times> nat \<times> nat) option"
  cl_opacity :: real
  cl_pulseSpeed :: real
  cl_pulsePhase :: real
  cl_vx :: real
  cl_vy :: real
  elongation :: real
  rotation :: real

record dust =
  dust_x :: real
  dust_y :: real
  dust_size :: real
  dust_opacity :: real
  dust_vx :: real
  dust_vy :: real
  dust_pulseSpeed :: real
  dust_pulsePhase :: real

text \<open>The palettes of \<open>colors\<close> and the counts and sizes of \<open>config\<close>.\<close>

definition stellar_distant :: "string list" where
  "stellar_distant = [''rgba(255, 204, 111, '', ''rgba(255, 166, 81, '', ''rgba(255, 135, 94, '',
                      ''rgba(255, 189, 157, '']"

definition stellar_mid :: "string list" where
  "stellar_mid = [''rgba(255, 244, 234, '', ''rgba(255, 255, 255, '', ''rgba(202, 215, 255, '',
                  ''rgba(170, 191, 255, '']"

definition stellar_near :: "string list" where
  "stellar_near = [''rgba(155, 176, 255, '', ''rgba(147, 197, 253, '', ''rgba(96, 165, 250, '',
                   ''rgba(59, 130, 246, '']"

definition nebulaColors :: "(nat \<times> nat \<times> nat) list" where
  "nebulaColors = [(147, 197, 253), (96, 165, 250), (59, 130, 246), (139, 92, 246),
                   (167, 139, 250), (236, 72, 153), (251, 146, 60), (34, 211, 238),
                   (74, 222, 128), (244, 114, 182), (192, 132, 252)]"

definition clusterColors :: "(nat \<times> nat \<times> nat) list" where
  "clusterColors = [(255, 230, 200), (200, 210, 255), (255, 200, 220), (220, 255, 230)]"

definition distantStarCount :: nat where "distantStarCount = 200"
definition midStarCount :: nat where "midStarCount = 200"
definition nearStarCount :: nat where "nearStarCount = 100"
definition nebulaCount :: nat where "nebulaCount = 8"
definition nebulaMinSize :: real where "nebulaMinSize = 250"
definition nebulaMaxSize :: real where "nebulaMaxSize = 600"
definition nebulaOpacity :: real where "nebulaOpacity = 0.12"
definition clusterCount :: nat where "clusterCount = 4"
definition clusterMinSize :: real where "clusterMinSize = 80"
definition clusterMaxSize :: real where "clusterMaxSize = 150"
definition dustCount :: nat where "dustCount = 80"
definition shootingStarCount :: nat where "shootingStarCount = 8"

text \<open>\<open>xs[Math.floor(r * xs.length)]\<close>; an index outside the array gives \<open>undefined\<close>.\<close>

definition pick :: "'a list \<Rightarrow> real \<Rightarrow> 'a option" where
  "pick xs r =
    (let k = nat \<lfloor>r * real (length xs)\<rfloor>
     in if 0 \<le> r \<and> k < length xs then Some (xs ! k) else None)"

text \<open>\<open>distance > 0 ? (d / distance) * speed : 0\<close>\<close>

definition away_from_center :: "real \<Rightarrow> real \<Rightarrow> real \<Rightarrow> real" where
  "away_from_center d distance speed = (if distance > 0 then (d / distance) * speed else 0)"

record layer_cfg =
  speed_base :: real
  speed_span :: real
  size_span :: real
  size_base :: real
  twinkle_base :: real
  twinkle_span :: real
  min_base :: real
  min_span :: real
  max_base :: real
  max_span :: real
  palette :: "string list"
  layer_name :: string

definition distant_cfg :: layer_cfg where
  "distant_cfg =
    \<lparr>speed_base = 0.05, speed_span = 0.03, size_span = 1, size_base = 0.3,
     twinkle_base = 0.005, twinkle_span = 0.01, min_base = 0.2, min_span = 0.15,
     max_base = 0.5, max_span = 0.2, palette = stellar_distant, layer_name = ''distant''\<rparr>"

definition mid_cfg :: layer_cfg where
  "mid_cfg =
    \<lparr>speed_base = 0.12, speed_span = 0.08, size_span = 1.5, size_base = 0.5,
     twinkle_base = 0.01, twinkle_span = 0.015, min_base = 0.3, min_span = 0.2,
     max_base = 0.7, max_span = 0.25, palette = stellar_mid, layer_name = ''mid''\<rparr>"

definition near_cfg :: layer_cfg where
  "near_cfg =
    \<lparr>speed_base = 0.2, speed_span = 0.15, size_span = 2.5, size_base = 1,
     twinkle_base = 0.015, twinkle_span = 0.02, min_base = 0.5, min_span = 0.2,
     max_base = 0.85, max_span = 0.15, palette = stellar_near, layer_name = ''near''\<rparr>"

text \<open>
  One iteration of a star loop, for a canvas of \<open>w\<close> by \<open>h\<close>: it makes nine calls of
  \<open>Math.random\<close>, the first being call number \<open>i\<close>.
\<close>

definition new_star :: "layer_cfg \<Rightarrow> real \<Rightarrow> real \<Rightarrow> (nat \<Rightarrow> real) \<Rightarrow> nat \<Rightarrow> star" where
  "new_star c w h rnd i =
    (let centerX = w / 2; centerY = h / 2;
         x = rnd i * w;
         y = rnd (i + 1) * h;
         dx = x - centerX;
         dy = y - centerY;
         distance = sqrt (dx * dx + dy * dy);
         speed = speed_base c + rnd (i + 2) * speed_span c
     in \<lparr>star_x = x, star_y = y,
         star_size = rnd (i + 3) * size_span c + size_base c,
         star_color = pick (palette c) (rnd (i + 4)),
         twinkleSpeed = twinkle_base c + rnd (i + 5) * twinkle_span c,
         twinklePhase = rnd (i + 6) * pi * 2,
         minOpacity = min_base c + rnd (i + 7) * min_span c,
         maxOpacity = max_base c + rnd (i + 8) * max_span c,
         star_vx = away_from_center dx distance speed,
         star_vy = away_from_center dy distance speed,
         initialDistance = distance,
         star_layer = layer_name c\<rparr>)"

text \<open>One iteration of the loop of \<open>createNebulas\<close>: eight calls of \<open>Math.random\<close>.\<close>

definition new_nebula :: "real \<Rightarrow> real \<Rightarrow> (nat \<Rightarrow> real) \<Rightarrow> nat \<Rightarrow> nebula" where
  "new_nebula w h rnd i =
    (let centerX = w / 2; centerY = h / 2;
         color = pick nebulaColors (rnd i);
         x = rnd (i + 1) * w;
         y = rnd (i + 2) * h;
         dx = x - centerX;
         dy = y - centerY;
         distance = sqrt (dx * dx + dy * dy);
         speed = 0.08 + rnd (i + 3) * 0.04
     in \<lparr>neb_x = x, neb_y = y,
         neb_size = nebulaMinSize + rnd (i + 4) * (nebulaMaxSize - nebulaMinSize),
         neb_color = color,
         neb_opacity = nebulaOpacity * (0.5 + rnd (i + 5) * 0.5),
         neb_pulseSpeed = 0.002 + rnd (i + 6) * 0.003,
         neb_pulsePhase = rnd (i + 7) * pi * 2,
         neb_vx = away_from_center dx distance speed,
         neb_vy = away_from_center dy distance speed\<rparr>)"

text \<open>One iteration of the loop of \<open>createClusters\<close>: ten calls of \<open>Math.random\<close>.\<close>

definition new_cluster :: "real \<Rightarrow> real \<Rightarrow> (nat \<Rightarrow> real) \<Rightarrow> nat \<Rightarrow> cluster" where
  "new_cluster w h rnd i =
    (let centerX = w / 2; centerY = h / 2;
         color = pick clusterColors (rnd i);
         x = rnd (i + 1) * w;
         y = rnd (i + 2) * h;
         dx = x - centerX;
         dy = y - centerY;
         distance = sqrt (dx * dx + dy * dy);
         speed = 0.02 + rnd (i + 3) * 0.02
     in \<lparr>cl_x = x, cl_y = y,
         cl_size = clusterMinSize + rnd (i + 4) * (clusterMaxSize - clusterMinSize),
         cl_color = color,
         cl_opacity = 0.03 + rnd (i + 5) * 0.04,
         cl_pulseSpeed = 0.001 + rnd (i + 6) * 0.002,
         cl_pulsePhase = rnd (i + 7) * pi * 2,
         cl_vx = away_from_center dx distance speed,
         cl_vy = away_from_center dy distance speed,
         elongation = 0.6 + rnd (i + 8) * 0.8,
         rotation = rnd (i + 9) * pi * 2\<rparr>)"

text \<open>One iteration of the loop of \<open>createSpaceDust\<close>: eight calls of \<open>Math.random\<close>.\<close>

definition new_dust :: "real \<Rightarrow> real \<Rightarrow> (nat \<Rightarrow> real) \<Rightarrow> nat \<Rightarrow> dust" where
  "new_dust w h rnd i =
    \<lparr>dust_x = rnd i * w,
     dust_y = rnd (i + 1) * h,
     dust_size = rnd (i + 2) * 1.5 + 0.5,
     dust_opacity = 0.05 + rnd (i + 3) * 0.1,
     dust_vx = (rnd (i + 4) - 0.5) * 0.1,
     dust_vy = (rnd (i + 5) - 0.5) * 0.1,
     dust_pulseSpeed = 0.003 + rnd (i + 6) * 0.005,
     dust_pulsePhase = rnd (i + 7) * pi * 2\<rparr>"

text \<open>
  The module state: the canvas (its size, and whether the element \<open>#particle-canvas\<close> is in
  the document), the four particle arrays, \<open>animationId\<close> and \<open>resizeTimeout\<close>
  (\<open>undefined\<close> until assigned), the frame requests and timers that are scheduled, the
  event listeners (target, type, function), and the properties of the global object, where
  an identifier declared nowhere in the script is looked up.
\<close>

record particles =
  canvas_width :: nat
  canvas_height :: nat
  canvas_in_document :: bool
  stars :: "star list"
  nebulas :: "nebula list"
  clusters :: "cluster list"
  spaceDust :: "dust list"
  random_calls :: nat
  animationId :: "nat option"
  resizeTimeout :: "nat option"
  frame_requests :: "nat list"
  timeouts :: "nat list"
  next_handle :: nat
  listeners :: "(string \<times> string \<times> string) list"
  global_vars :: "(string \<times> nat) list"

text \<open>
  A \<open>for\<close> loop of \<open>n\<close> iterations that each make \<open>per\<close> calls of \<open>Math.random\<close>,
  starting at call number \<open>i\<close>.
\<close>

definition push_each :: "nat \<Rightarrow> nat \<Rightarrow> nat \<Rightarrow> (nat \<Rightarrow> 'a) \<Rightarrow> 'a list" where
  "push_each n per i mk = map (\<lambda>k. mk (i + per * k)) [0..<n]"

definition createNebulas :: "(nat \<Rightarrow> real) \<Rightarrow> particles \<Rightarrow> particles" where
  "createNebulas rnd ps =
    ps\<lparr>nebulas := push_each nebulaCount 8 (random_calls ps)
                     (new_nebula (real (canvas_width ps)) (real (canvas_height ps)) rnd),
       random_calls := random_calls ps + 8 * nebulaCount\<rparr>"

definition createClusters :: "(nat \<Rightarrow> real) \<Rightarrow> particles \<Rightarrow> particles" where
  "createClusters rnd ps =
    ps\<lparr>clusters := push_each clusterCount 10 (random_calls ps)
                     (new_cluster (real (canvas_width ps)) (real (canvas_height ps)) rnd),
       random_calls := random_calls ps + 10 * clusterCount\<rparr>"

definition createSpaceDust :: "(nat \<Rightarrow> real) \<Rightarrow> particles \<Rightarrow> particles" where
  "createSpaceDust rnd ps =
    ps\<lparr>spaceDust := push_each dustCount 8 (random_calls ps)
                     (new_dust (real (canvas_width ps)) (real (canvas_height ps)) rnd),
       random_calls := random_calls ps + 8 * dustCount\<rparr>"

definition createStars :: "(nat \<Rightarrow> real) \<Rightarrow> particles \<Rightarrow> particles" where
  "createStars rnd ps =
    (let w = real (canvas_width ps); h = real (canvas_height ps);
         i0 = random_calls ps;
         distant = push_each distantStarCount 9 i0 (new_star distant_cfg w h rnd);
         i1 = i0 + 9 * distantStarCount;
         mid = push_each midStarCount 9 i1 (new_star mid_cfg w h rnd);
         i2 = i1 + 9 * midStarCount;
         near = push_each nearStarCount 9 i2 (new_star near_cfg w h rnd);
         i3 = i2 + 9 * nearStarCount;
         ps1 = ps\<lparr>stars := distant @ mid @ near, random_calls := i3\<rparr>
     in createSpaceDust rnd (createClusters rnd (createNebulas rnd ps1)))"

definition clearTimeout :: "nat option \<Rightarrow> particles \<Rightarrow> particles" where
  "clearTimeout t ps =
    (case t of None \<Rightarrow> ps | Some k \<Rightarrow> ps\<lparr>timeouts := removeAll k (timeouts ps)\<rparr>)"

text \<open>\<open>resizeCanvas\<close>, for a window of \<open>innerWidth\<close> by \<open>innerHeight\<close>.\<close>

definition resizeCanvas :: "nat \<Rightarrow> nat \<Rightarrow> particles \<Rightarrow> particles" where
  "resizeCanvas innerWidth innerHeight ps =
    (let ps1 = ps\<lparr>canvas_width := innerWidth, canvas_height := innerHeight\<rparr>;
         ps2 = clearTimeout (resizeTimeout ps1) ps1;
         k = next_handle ps2
     in ps2\<lparr>resizeTimeout := Some k, timeouts := timeouts ps2 @ [k], next_handle := Suc k\<rparr>)"

text \<open>The timer of \<open>resizeCanvas\<close> fires after 250 ms, if it has not been cleared.\<close>

definition debounce_fires :: "(nat \<Rightarrow> real) \<Rightarrow> particles \<Rightarrow> particles" where
  "debounce_fires rnd ps =
    (case resizeTimeout ps of
       None \<Rightarrow> ps
     | Some k \<Rightarrow>
         if k \<in> set (timeouts ps)
         then createStars rnd (ps\<lparr>timeouts := removeAll k (timeouts ps)\<rparr>)
         else ps)"

text \<open>The positions of all particles, and the rectangle with a margin of 10 around the canvas.\<close>

definition positions :: "particles \<Rightarrow> (real \<times> real) list" where
  "positions ps =
    map (\<lambda>s. (star_x s, star_y s)) (stars ps) @
    map (\<lambda>n. (neb_x n, neb_y n)) (nebulas ps) @
    map (\<lambda>c. (cl_x c, cl_y c)) (clusters ps) @
    map (\<lambda>d. (dust_x d, dust_y d)) (spaceDust ps)"

definition inside_canvas :: "nat \<Rightarrow> nat \<Rightarrow> real \<times> real \<Rightarrow> bool" where
  "inside_canvas width height p =
    (0 \<le> fst p \<and> fst p \<le> real width \<and> 0 \<le> snd p \<and> snd p \<le> real height)"

definition within_margin :: "nat \<Rightarrow> nat \<Rightarrow> real \<times> real \<Rightarrow> bool" where
  "within_margin width height p =
    (- 10 \<le> fst p \<and> fst p \<le> real width + 10 \<and> - 10 \<le> snd p \<and> snd p \<le> real height + 10)"

text \<open>
  \<open>ParticleSystem.destroy\<close>. A statement that throws ends the call; the state it leaves
  is kept. \<open>shootingStarIntervalId\<close> is declared nowhere in the script, so it is read
  from the global object, and reading an identifier that is not there throws.
\<close>

datatype 'a outcome = Done 'a | Threw js_error 'a

definition cancelAnimationFrame :: "nat \<Rightarrow> particles \<Rightarrow> particles" where
  "cancelAnimationFrame k ps = ps\<lparr>frame_requests := removeAll k (frame_requests ps)\<rparr>"

definition clearInterval :: "nat \<Rightarrow> particles \<Rightarrow> particles" where
  "clearInterval k ps = ps\<lparr>timeouts := removeAll k (timeouts ps)\<rparr>"

definition removeEventListener :: "string \<Rightarrow> string \<Rightarrow> string \<Rightarrow> particles \<Rightarrow> particles" where
  "removeEventListener target type f ps = ps\<lparr>listeners := removeAll (target, type, f) (listeners ps)\<rparr>"

definition destroy :: "particles \<Rightarrow> particles outcome" where
  "destroy ps =
    (let ps1 = (case animationId ps of
                  None \<Rightarrow> ps
                | Some k \<Rightarrow> if k \<noteq> 0 then cancelAnimationFrame k ps else ps)
     in case map_of (global_vars ps1) ''shootingStarIntervalId'' of
          None \<Rightarrow> Threw ReferenceError ps1
        | Some shootingStarIntervalId \<Rightarrow>
            (let ps2 = (if shootingStarIntervalId \<noteq> 0
                        then clearInterval shootingStarIntervalId ps1 else ps1);
                 ps3 = clearTimeout (resizeTimeout ps2) ps2;
                 ps4 = removeEventListener ''window'' ''resize'' ''resizeCanvas'' ps3;
                 ps5 = removeEventListener ''document'' ''visibilitychange'' ''handleVisibilityChange'' ps4;
                 ps6 = removeEventListener ''window'' ''pageshow'' ''handlePageShow'' ps5
             in Done (ps6\<lparr>canvas_in_document := False\<rparr>)))"

text \<open>
  A running particle system, as \<open>init\<close> leaves it on a page whose scripts are the ones of
  this repository: the canvas is in the document, a frame is requested, the three listeners
  are registered, and no script has defined a global \<open>shootingStarIntervalId\<close>.
\<close>

definition running_particles :: particles where
  "running_particles =
    \<lparr>canvas_width = 800, canvas_height = 600, canvas_in_document = True,
     stars = [], nebulas = [], clusters = [], spaceDust = [],
     random_calls = 0,
     animationId = Some 1, resizeTimeout = None,
     frame_requests = [1], timeouts = [], next_handle = 2,
     listeners = [(''window'', ''resize'', ''resizeCanvas''),
                  (''document'', ''visibilitychange'', ''handleVisibilityChange''),
                  (''window'', ''pageshow'', ''handlePageShow'')],
     global_vars = []\<rparr>"

text \<open>A random sequence to run the model with: every call returns one half.\<close>

definition half :: "nat \<Rightarrow> real" where
  "half k = 1 / 2"

section \<open>Properties of the page transitions\<close>

lemma pending_exit_visuals [simp]: "pending (exit_visuals st) = pending st"
  and flag_exit_visuals [simp]: "isTransitioning (exit_visuals st) = isTransitioning st"
  by (simp_all add: exit_visuals_def)

lemma pending_splice [simp]: "pending (splice_regions d st) = pending st"
  and flag_splice [simp]: "isTransitioning (splice_regions d st) = isTransitioning st"
  by (simp_all add: splice_regions_def splice_nav_def splice_header_def splice_main_def Let_def split: option.splits)

lemma inv_click: "idle_or_single st \<Longrightarrow> idle_or_single (snd (handleLinkClick e st))"
  by (auto simp: idle_or_single_def handleLinkClick_def navigateTo_def skip_link_def Let_def split: option.splits if_splits)

lemma inv_pop: "idle_or_single st \<Longrightarrow> idle_or_single (handlePopState (st\<lparr>loc_href := u\<rparr>))"
  by (auto simp: idle_or_single_def handlePopState_def Let_def split: if_splits)

lemma inv_timer:
  assumes "pending st = []" "isTransitioning st" "run_timer t st = Some st'"
  shows "idle_or_single st'"
  using assms
  by (cases t) (auto simp: idle_or_single_def fetchPage_def enter_callback_def cleanup_callback_def
      pop_fetch_def pop_enter_callback_def pop_cleanup_callback_def reinitializeScripts_def Let_def)

lemma inv_settle:
  assumes "pending st = []" "isTransitioning st" "run_settle t r st = Some st'"
  shows "idle_or_single st'"
  using assms
  by (cases t; cases r) (auto simp: idle_or_single_def fetchPage_settled_def fetchPage_catch_def
      updatePage_def pushState_def pop_settled_def pop_catch_def Let_def split: if_splits)

lemma single_pending:
  assumes "idle_or_single st" "i < length (pending st)"
  shows "pending (unschedule i st) = [] \<and> isTransitioning (unschedule i st)"
  using assms by (cases "pending st") (auto simp: idle_or_single_def unschedule_def split: if_splits)

lemma inv_step: "idle_or_single st \<Longrightarrow> idle_or_single (step ev st)"
proof (cases ev)
  case (Click e)
  assume "idle_or_single st"
  then show ?thesis using Click by (simp add: step_def inv_click)
next
  case (PopState u)
  assume "idle_or_single st"
  then show ?thesis using PopState by (simp add: step_def inv_pop)
next
  case (TimerFires i)
  assume a: "idle_or_single st"
  show ?thesis
  proof (cases "i < length (pending st)")
    case True
    from single_pending[OF a True] show ?thesis
      using a TimerFires True by (auto simp: step_def split: option.splits intro: inv_timer)
  next
    case False
    then show ?thesis using a TimerFires by (simp add: step_def)
  qed
next
  case (FetchSettles i r)
  assume a: "idle_or_single st"
  show ?thesis
  proof (cases "i < length (pending st)")
    case True
    from single_pending[OF a True] show ?thesis
      using a FetchSettles True by (auto simp: step_def split: option.splits intro: inv_settle)
  next
    case False
    then show ?thesis using a FetchSettles by (simp add: step_def)
  qed
qed

lemma inv_run: "idle_or_single st \<Longrightarrow> idle_or_single (run evs st)"
  by (induction evs arbitrary: st) (simp_all add: inv_step)

lemma inv_page_load: "idle_or_single (page_load p)"
  by (simp add: idle_or_single_def page_load_def init_def Let_def split: option.splits)

lemma reachable_inv: "idle_or_single (run evs (page_load p))"
  by (rule inv_run[OF inv_page_load])

lemma idle_nothing_pending:
  assumes "idle_or_single st" "\<not> isTransitioning st"
  shows "pending st = []"
  using assms by (auto simp: idle_or_single_def split: if_splits)

lemma in_flight_le: "in_flight st \<le> in_progress st"
  by (simp add: in_flight_def in_progress_def)

lemma busy_click: "isTransitioning st \<Longrightarrow> handleLinkClick e st = (False, st)"
  by (simp add: handleLinkClick_def skip_link_def split: option.splits)

lemma busy_pop: "isTransitioning st \<Longrightarrow> handlePopState st = st"
  by (simp add: handlePopState_def)

lemma click_starts_when_idle:
  "in_progress st < in_progress (snd (handleLinkClick e st)) \<Longrightarrow> \<not> isTransitioning st"
  using busy_click[of st e] by auto

lemma pop_starts_when_idle:
  "in_progress st < in_progress (handlePopState st) \<Longrightarrow> \<not> isTransitioning st"
  using busy_pop[of st] by auto

subsection \<open>One transition at a time\<close>

text \<open>
  Claim C1. Whatever clicks, pop-state events, timers and fetch results follow a page load,
  at most one transition is in progress (at most one continuation is scheduled, so at most
  one fetch is in flight). While \<open>isTransitioning\<close> is true a click is not prevented and
  changes nothing, and \<open>handlePopState\<close> changes nothing; so a click or a pop-state event
  that starts a transition found the flag false.
\<close>

theorem one_transition_at_a_time:
  "in_progress (run evs (page_load p)) \<le> 1
   \<and> in_flight (run evs (page_load p)) \<le> 1
   \<and> (isTransitioning st \<longrightarrow> handleLinkClick e st = (False, st) \<and> handlePopState st = st)
   \<and> (in_progress st < in_progress (snd (handleLinkClick e st)) \<longrightarrow> \<not> isTransitioning st)
   \<and> (in_progress st < in_progress (handlePopState st) \<longrightarrow> \<not> isTransitioning st)"
proof -
  have a: "in_progress (run evs (page_load p)) \<le> 1"
    using reachable_inv[of evs p] by (simp add: idle_or_single_def in_progress_def)
  have b: "in_flight (run evs (page_load p)) \<le> 1"
    using a in_flight_le[of "run evs (page_load p)"] by simp
  show ?thesis
    using a b busy_click busy_pop click_starts_when_idle pop_starts_when_idle by blast
qed

lemma busy_page_flag: "isTransitioning busy_page"
  by (simp add: busy_page_def handleLinkClick_def skip_link_def about_link_def home_page_def
      page_load_def init_def navigateTo_def exit_visuals_def falsy_def startsWith_def Let_def)

text \<open>
  On the home page, after a click on the About link: the flag is set, and a click on another
  internal link and a pop-state event are dropped.
\<close>

theorem one_transition_at_a_time_witness:
  "isTransitioning busy_page
   \<and> handleLinkClick (Some contact_link) busy_page = (False, busy_page)
   \<and> handlePopState busy_page = busy_page
   \<and> in_progress (run [Click (Some about_link), Click (Some contact_link), PopState ''http://example.com/''] (page_load home_page)) \<le> 1"
  using one_transition_at_a_time[of "[Click (Some about_link), Click (Some contact_link), PopState ''http://example.com/'']"
      home_page busy_page "Some contact_link"] busy_page_flag
  by simp

subsection \<open>Links the handler leaves alone\<close>

text \<open>
  Claim C4. A click on an anchor with no href, with another hostname than the page's,
  with an href that starts with \<open>#\<close>, \<open>mailto:\<close> or \<open>tel:\<close>, with \<open>target="_blank"\<close>,
  or with a download attribute: \<open>preventDefault\<close> is not called and the state is the one
  before the click, so nothing is scheduled and no fetch follows from it.
\<close>

theorem skipped_click_is_left_to_the_browser:
  assumes "a_href link = None
    \<or> a_hostname link \<noteq> loc_hostname st
    \<or> (\<exists>h. a_href link = Some h \<and> (startsWith h ''#'' \<or> startsWith h ''mailto:'' \<or> startsWith h ''tel:''))
    \<or> a_target link = Some ''_blank''
    \<or> a_download link"
  shows "handleLinkClick (Some link) st = (False, st)"
  using assms by (auto simp: handleLinkClick_def skip_link_def falsy_def)

text \<open>A \<open>mailto:\<close> link on the home page.\<close>

theorem skipped_click_is_left_to_the_browser_witness:
  "handleLinkClick (Some mailto_link) home_page = (False, home_page)"
  using skipped_click_is_left_to_the_browser[of mailto_link home_page]
  by (simp add: mailto_link_def home_page_def startsWith_def)

text \<open>
  Claim C5 says that only same-origin links (same scheme, host and port) are intercepted.
  The handler compares \<open>hostname\<close> only: on \<open>http://example.com/index.html\<close>, a click on
  a link to \<open>http://example.com:8080/admin.html\<close> (same hostname, another port, so
  another origin) is prevented, and a fetch of that URL follows after the exit delay.
\<close>

theorem other_port_link_is_intercepted:
  "a_hostname other_port_link = loc_hostname home_page
   \<and> a_port other_port_link \<noteq> loc_port home_page
   \<and> fst (handleLinkClick (Some other_port_link) (page_load home_page))
   \<and> pending (snd (handleLinkClick (Some other_port_link) (page_load home_page)))
       = [FetchTimer ''http://example.com:8080/admin.html'']
   \<and> fetches (run [Click (Some other_port_link), TimerFires 0] (page_load home_page))
       = [''http://example.com:8080/admin.html'']"
  by (simp add: handleLinkClick_def skip_link_def other_port_link_def home_page_def
      page_load_def init_def navigateTo_def exit_visuals_def falsy_def startsWith_def Let_def
      step_def unschedule_def fetchPage_def)

lemma intercept_idle:
  assumes "\<not> skip_link link st"
  shows "\<not> isTransitioning st"
  using assms by (auto simp: skip_link_def)

lemma intercepted_click:
  assumes "\<not> skip_link link st" "a_href link = Some u"
  shows "handleLinkClick (Some link) st
         = (True, (exit_visuals (st\<lparr>isTransitioning := True\<rparr>))\<lparr>pending := pending st @ [FetchTimer u]\<rparr>)"
  using assms intercept_idle[OF assms(1)]
  by (simp add: handleLinkClick_def navigateTo_def Let_def)

lemma click_then_fetch:
  assumes "\<not> skip_link link st" "a_href link = Some u" "pending st = []"
  shows "step (TimerFires 0) (step (Click (Some link)) st)
         = (awaiting u st)\<lparr>pending := [FetchInFlight u]\<rparr>"
  using assms
  by (simp add: step_def intercepted_click unschedule_def fetchPage_def exit_visuals_def
      awaiting_def resolve_def)

lemma settle_in_flight:
  assumes "pending st = [FetchInFlight u]"
  shows "step (FetchSettles 0 r) st = fetchPage_settled u r (st\<lparr>pending := []\<rparr>)"
  using assms by (simp add: step_def unschedule_def)

lemma link_transition_settled:
  assumes "\<not> skip_link link st" "a_href link = Some u" "pending st = []"
  shows "run [Click (Some link), TimerFires 0, FetchSettles 0 r] st
         = fetchPage_settled u r (awaiting u st)"
  by (simp add: click_then_fetch[OF assms] settle_in_flight) (simp add: awaiting_def)

lemma exit_visuals_keeps [simp]:
  "loc_href (exit_visuals st) = loc_href st"
  "history_entries (exit_visuals st) = history_entries st"
  "cur_title (exit_visuals st) = cur_title st"
  "fetches (exit_visuals st) = fetches st"
  "cur_header (exit_visuals st) = cur_header st"
  "cur_nav (exit_visuals st) = cur_nav st"
  "href_assigned (exit_visuals st) = href_assigned st"
  by (simp_all add: exit_visuals_def)

lemma awaiting_keeps:
  "loc_href (awaiting u st) = loc_href st"
  "history_entries (awaiting u st) = history_entries st"
  "cur_title (awaiting u st) = cur_title st"
  "cur_header (awaiting u st) = cur_header st"
  "cur_nav (awaiting u st) = cur_nav st"
  "href_assigned (awaiting u st) = href_assigned st"
  "fetches (awaiting u st) = fetches st @ [u]"
  "requested (awaiting u st) = requested st @ [u_href (resolve u st)]"
  "pending (awaiting u st) = []"
  "isTransitioning (awaiting u st)"
  "map_option innerHTML (cur_main (awaiting u st)) = map_option innerHTML (cur_main st)"
  by (cases "cur_main st"; simp add: awaiting_def exit_visuals_def)+


lemma splice_keeps [simp]:
  "loc_href (splice_regions d st) = loc_href st"
  "history_entries (splice_regions d st) = history_entries st"
  "cur_title (splice_regions d st) = doc_title d"
  "fetches (splice_regions d st) = fetches st"
  "requested (splice_regions d st) = requested st"
  "href_assigned (splice_regions d st) = href_assigned st"
  by (simp_all add: splice_regions_def splice_nav_def splice_header_def splice_main_def Let_def split: option.splits)


lemma updatePage_refused:
  assumes "\<not> pushState_accepts u st"
  shows "updatePage d u st = Inl SecurityError"
  using assms by (simp add: updatePage_def pushState_def)

lemma updatePage_completes_iff:
  "(\<exists>st'. updatePage d u st = Inr st') \<longleftrightarrow> pushState_accepts u st"
  by (simp add: updatePage_def pushState_def Let_def)


subsection \<open>A link transition, fetched and not\<close>



text \<open>
  A link that the handler intercepts and \<open>pushState\<close> refuses: the link to another port,
  answered with an \<open>ok\<close> response. \<open>updatePage\<close> throws before it changes anything, and
  the \<open>catch\<close> of \<open>fetchPage\<close> assigns \<open>window.location.href\<close>.
\<close>

lemma refused_push_falls_back:
  "let st' = run [Click (Some other_port_link), TimerFires 0, FetchSettles 0 (Response True about_doc)]
               (page_load home_page)
   in \<not> pushState_accepts ''http://example.com:8080/admin.html'' (page_load home_page)
    \<and> cur_title st' = ''Home''
    \<and> loc_href st' = ''http://example.com/index.html''
    \<and> history_entries st' = []
    \<and> href_assigned st' = [''http://example.com:8080/admin.html'']"
  by (simp add: handleLinkClick_def skip_link_def other_port_link_def home_page_def
      page_load_def init_def navigateTo_def exit_visuals_def falsy_def startsWith_def Let_def
      step_def unschedule_def fetchPage_def fetchPage_settled_def updatePage_def pushState_def
      pushState_accepts_def resolve_def example_parse_def fetchPage_catch_def)

lemma catch_keeps:
  "cur_title (fetchPage_catch u st) = cur_title st"
  "cur_main (fetchPage_catch u st) = cur_main st"
  "cur_header (fetchPage_catch u st) = cur_header st"
  "cur_nav (fetchPage_catch u st) = cur_nav st"
  "history_entries (fetchPage_catch u st) = history_entries st"
  "loc_href (fetchPage_catch u st) = loc_href st"
  "href_assigned (fetchPage_catch u st) = href_assigned st @ [u]"
  "isTransitioning (fetchPage_catch u st) = isTransitioning st"
  "pending (fetchPage_catch u st) = pending st"
  by (simp_all add: fetchPage_catch_def)

lemma failed_settles_in_catch:
  "fetch_failed r \<Longrightarrow> fetchPage_settled u r st = fetchPage_catch u st"
  by (cases r) (simp_all add: fetch_failed_def fetchPage_settled_def)

text \<open>
  Claim C10. The same click when the fetch fails (rejected, or a response that is not
  \<open>ok\<close>): title, markup of \<open>main\<close>, \<open>header\<close>, \<open>nav\<close>, the pushed history entries and
  the location are what they were before the click, and \<open>window.location.href\<close> has been
  assigned the requested URL.
\<close>

theorem failed_link_transition_splices_nothing:
  assumes "\<not> skip_link link (run evs (page_load p))" and "a_href link = Some u"
    and "fetch_failed r"
  shows "let st = run evs (page_load p);
             st' = run [Click (Some link), TimerFires 0, FetchSettles 0 r] st
         in cur_title st' = cur_title st
          \<and> map_option innerHTML (cur_main st') = map_option innerHTML (cur_main st)
          \<and> cur_header st' = cur_header st
          \<and> cur_nav st' = cur_nav st
          \<and> history_entries st' = history_entries st
          \<and> loc_href st' = loc_href st
          \<and> href_assigned st' = href_assigned st @ [u]"
proof -
  define st where "st = run evs (page_load p)"
  have skip: "\<not> skip_link link st" using assms(1) by (simp add: st_def)
  have idle: "pending st = []"
    using idle_nothing_pending[OF reachable_inv intercept_idle] assms(1) by (simp add: st_def)
  have eq: "run [Click (Some link), TimerFires 0, FetchSettles 0 r] st
      = fetchPage_catch u (awaiting u st)"
    unfolding link_transition_settled[OF skip assms(2) idle]
    by (rule failed_settles_in_catch[OF assms(3)])
  show ?thesis
    unfolding Let_def st_def[symmetric] eq
    by (simp add: catch_keeps awaiting_keeps)
qed

text \<open>The About link on the home page, with the network down.\<close>

theorem failed_link_transition_splices_nothing_witness:
  "let st' = run [Click (Some about_link), TimerFires 0, FetchSettles 0 NetworkError] (page_load home_page)
   in \<not> skip_link about_link (page_load home_page)
    \<and> fetch_failed NetworkError
    \<and> cur_title st' = ''Home''
    \<and> map_option innerHTML (cur_main st') = Some ''<p>home</p>''
    \<and> history_entries st' = []
    \<and> href_assigned st' = [''http://example.com/about.html'']"
proof -
  have h: "\<not> skip_link about_link (run [] (page_load home_page))"
    by (simp add: skip_link_def about_link_def home_page_def page_load_def init_def
        falsy_def startsWith_def Let_def)
  have a: "a_href about_link = Some ''http://example.com/about.html''"
    by (simp add: about_link_def)
  have f: "fetch_failed NetworkError"
    by (simp add: fetch_failed_def)
  show ?thesis
    using failed_link_transition_splices_nothing[OF h a f] h f
    by (simp add: Let_def home_page_def page_load_def init_def)
qed

text \<open>
  Claim C2 says that a failed fetch on the pop-state path, a response with a non-success
  status included, reloads the page. \<open>fetchPage\<close> tests \<open>response.ok\<close>;
  \<open>handlePopState\<close> does not: after a pop-state event to
  \<open>http://example.com/gone.html\<close> answered with a 404 page, nothing is reloaded and the
  error page is spliced into the document.
\<close>

theorem pop_state_error_status_is_spliced:
  "let st' = run [PopState ''http://example.com/gone.html'', TimerFires 0,
                  FetchSettles 0 (Response False not_found_doc)] (page_load home_page)
   in fetch_failed (Response False not_found_doc)
    \<and> fetches st' = [''http://example.com/gone.html'']
    \<and> reloads st' = 0
    \<and> cur_title st' = ''404 Not Found''
    \<and> map_option innerHTML (cur_main st') = Some ''<h1>Not Found</h1>''"
  by (simp add: fetch_failed_def not_found_doc_def home_page_def page_load_def init_def
      step_def handlePopState_def exit_visuals_def unschedule_def pop_fetch_def pop_settled_def
      splice_regions_def splice_main_def splice_header_def splice_nav_def Let_def
      classList_add_def classList_remove_def)

text \<open>
  What the two catch handlers do: the link path assigns \<open>window.location.href\<close> and the
  pop-state path (on a rejected fetch) reloads. Neither assigns \<open>isTransitioning\<close>, and
  nothing remains scheduled: the flag goes away with the document that the navigation
  replaces.
\<close>

lemma failed_link_fetch_leaves_flag:
  assumes "\<not> skip_link link (run evs (page_load p))" and "a_href link = Some u"
    and "fetch_failed r"
  shows "isTransitioning (run [Click (Some link), TimerFires 0, FetchSettles 0 r] (run evs (page_load p)))"
    and "pending (run [Click (Some link), TimerFires 0, FetchSettles 0 r] (run evs (page_load p))) = []"
proof -
  define st where "st = run evs (page_load p)"
  have skip: "\<not> skip_link link st" using assms(1) by (simp add: st_def)
  have idle: "pending st = []"
    using idle_nothing_pending[OF reachable_inv intercept_idle] assms(1) by (simp add: st_def)
  have eq: "run [Click (Some link), TimerFires 0, FetchSettles 0 r] st
      = fetchPage_catch u (awaiting u st)"
    unfolding link_transition_settled[OF skip assms(2) idle]
    by (rule failed_settles_in_catch[OF assms(3)])
  show "isTransitioning (run [Click (Some link), TimerFires 0, FetchSettles 0 r] (run evs (page_load p)))"
    unfolding st_def[symmetric] eq by (simp add: catch_keeps awaiting_keeps)
  show "pending (run [Click (Some link), TimerFires 0, FetchSettles 0 r] (run evs (page_load p))) = []"
    unfolding st_def[symmetric] eq by (simp add: catch_keeps awaiting_keeps)
qed

lemma pop_network_error_reloads:
  "reloads (pop_settled m ov NetworkError st) = Suc (reloads st)"
  by (simp add: pop_settled_def pop_catch_def)

section \<open>Properties of the timeline accordion\<close>

lemma filter_only: "B < n \<Longrightarrow> filter (\<lambda>j. j = B) [0..<n] = [B]"
  by (induction n) (auto simp: less_Suc_eq)

lemma length_close_others [simp]: "length (close_others i its) = length its"
  by (simp add: close_others_def)

lemma nth_close_others:
  "j < length its \<Longrightarrow> close_others i its ! j = (if j \<noteq> i then deactivate (its ! j) else its ! j)"
  by (simp add: close_others_def nth_enumerate_eq)

lemma not_active_deactivate [simp]: "\<not> is_active (deactivate it)"
  by (simp add: is_active_def deactivate_def classList_remove_def)

lemma active_activate [simp]: "is_active (activate it)"
  by (simp add: is_active_def activate_def classList_add_def)

lemma active_items_only:
  assumes "B < length (tl_items tm)"
    and "\<And>j. j < length (tl_items tm) \<Longrightarrow> is_active (tl_items tm ! j) = (j = B)"
  shows "active_items tm = [B]"
proof -
  have "active_items tm = filter (\<lambda>j. j = B) [0..<length (tl_items tm)]"
    unfolding active_items_def by (rule filter_cong) (simp_all add: assms(2))
  then show ?thesis by (simp add: filter_only[OF assms(1)])
qed

lemma active_items_none:
  assumes "\<And>j. j < length (tl_items tm) \<Longrightarrow> \<not> is_active (tl_items tm ! j)"
  shows "active_items tm = []"
  unfolding active_items_def by (simp add: assms filter_empty_conv)

lemma timeline_click_opens:
  assumes "i < length (tl_items tm)" "\<not> is_active (tl_items tm ! i)"
  shows "active_items (timeline_click False i tm) = [i]"
proof (rule active_items_only)
  show "i < length (tl_items (timeline_click False i tm))"
    using assms by (simp add: timeline_click_def Let_def)
next
  fix j assume "j < length (tl_items (timeline_click False i tm))"
  then have "j < length (tl_items tm)" using assms by (simp add: timeline_click_def Let_def)
  then show "is_active (tl_items (timeline_click False i tm) ! j) = (j = i)"
    using assms by (simp add: timeline_click_def Let_def nth_list_update nth_close_others)
qed

lemma timeline_click_closes:
  assumes "i < length (tl_items tm)" "is_active (tl_items tm ! i)"
  shows "active_items (timeline_click False i tm) = []"
proof (rule active_items_none)
  fix j assume "j < length (tl_items (timeline_click False i tm))"
  then have "j < length (tl_items tm)" using assms by (simp add: timeline_click_def Let_def)
  then show "\<not> is_active (tl_items (timeline_click False i tm) ! j)"
    using assms by (simp add: timeline_click_def Let_def nth_list_update nth_close_others)
qed

lemma reinit_click_opens:
  assumes "i < length (tl_items tm)" "\<not> is_active (tl_items tm ! i)"
  shows "active_items (reinit_click i tm) = [i]"
proof (rule active_items_only)
  show "i < length (tl_items (reinit_click i tm))"
    using assms by (simp add: reinit_click_def Let_def)
next
  fix j assume "j < length (tl_items (reinit_click i tm))"
  then have "j < length (tl_items tm)" using assms by (simp add: reinit_click_def Let_def)
  then show "is_active (tl_items (reinit_click i tm) ! j) = (j = i)"
    using assms by (simp add: reinit_click_def Let_def nth_list_update)
qed

lemma reinit_click_closes:
  assumes "i < length (tl_items tm)" "is_active (tl_items tm ! i)"
  shows "active_items (reinit_click i tm) = []"
proof (rule active_items_none)
  fix j assume "j < length (tl_items (reinit_click i tm))"
  then have "j < length (tl_items tm)" using assms by (simp add: reinit_click_def Let_def)
  then show "\<not> is_active (tl_items (reinit_click i tm) ! j)"
    using assms by (simp add: reinit_click_def Let_def)
qed

lemma listener_keeps_length [simp]:
  "length (tl_items (run_listener on_link i l tm)) = length (tl_items tm)"
  by (cases l) (simp_all add: timeline_click_def reinit_click_def Let_def)

lemma listener_at_most_one:
  assumes "i < length (tl_items tm)" "length (active_items tm) \<le> 1"
  shows "length (active_items (run_listener on_link i l tm)) \<le> 1"
proof (cases l)
  case TimelineListener
  show ?thesis
  proof (cases on_link)
    case True
    then show ?thesis using TimelineListener assms(2) by (simp add: timeline_click_def)
  next
    case False
    then show ?thesis
      using TimelineListener timeline_click_opens[OF assms(1)] timeline_click_closes[OF assms(1)]
      by (cases "is_active (tl_items tm ! i)") simp_all
  qed
next
  case ReinitListener
  then show ?thesis
    using reinit_click_opens[OF assms(1)] reinit_click_closes[OF assms(1)]
    by (cases "is_active (tl_items tm ! i)") simp_all
qed

lemma listeners_at_most_one:
  assumes "i < length (tl_items tm)" "length (active_items tm) \<le> 1"
  shows "length (active_items (fold (run_listener on_link i) ls tm)) \<le> 1"
  using assms
proof (induction ls arbitrary: tm)
  case Nil
  then show ?case by simp
next
  case (Cons a ls)
  have "i < length (tl_items (run_listener on_link i a tm))"
    using Cons.prems(1) by simp
  moreover have "length (active_items (run_listener on_link i a tm)) \<le> 1"
    by (rule listener_at_most_one[OF Cons.prems])
  ultimately show ?case
    using Cons.IH[of "run_listener on_link i a tm"] by simp
qed

lemma click_at_most_one:
  assumes "length (active_items tm) \<le> 1"
  shows "length (active_items (click_header on_link i tm)) \<le> 1"
  using assms listeners_at_most_one[of i tm on_link]
  by (simp add: click_header_def split: option.splits)

lemma active_items_member:
  "j \<in> set (active_items tm) \<longleftrightarrow> j < length (tl_items tm) \<and> is_active (tl_items tm ! j)"
  by (auto simp: active_items_def)

lemma single_listener_click:
  assumes "B < length (tl_items tm)" "item_header (tl_items tm ! B) = Some [l]"
  shows "click_header on_link B tm = run_listener on_link B l tm"
  using assms by (simp add: click_header_def)

lemma listener_opens:
  assumes "B < length (tl_items tm)" "\<not> is_active (tl_items tm ! B)"
    and "l = TimelineListener \<longrightarrow> \<not> on_link"
  shows "active_items (run_listener on_link B l tm) = [B]"
  using assms timeline_click_opens[OF assms(1,2)] reinit_click_opens[OF assms(1,2)]
  by (cases l) simp_all

lemma listener_closes:
  assumes "B < length (tl_items tm)" "is_active (tl_items tm ! B)"
    and "l = TimelineListener \<longrightarrow> \<not> on_link"
  shows "active_items (run_listener on_link B l tm) = []"
  using assms timeline_click_closes[OF assms(1,2)] reinit_click_closes[OF assms(1,2)]
  by (cases l) simp_all

subsection \<open>The accordion\<close>

text \<open>
  Claim C7, amended. Any click on any header keeps at most one item active. For a header
  with one click listener (the one of \<open>initTimeline\<close>, or the one of
  \<open>reinitializeScripts\<close>) and a click that the listener of \<open>initTimeline\<close> does not skip
  (its target is not inside a \<open>.timeline-link\<close>): clicking the header of B while A is
  the active item leaves exactly B active, and clicking the header of the active item
  leaves none active.
\<close>

theorem accordion_click_single_listener:
  assumes "B < length (tl_items tm)"
    and "item_header (tl_items tm ! B) = Some [l]"
    and "l = TimelineListener \<longrightarrow> \<not> on_link"
  shows "(length (active_items tm) \<le> 1 \<longrightarrow> length (active_items (click_header any_target j tm)) \<le> 1)
       \<and> (active_items tm = [A] \<and> A \<noteq> B \<longrightarrow> active_items (click_header on_link B tm) = [B])
       \<and> (active_items tm = [B] \<longrightarrow> active_items (click_header on_link B tm) = [])"
proof (intro conjI impI)
  assume "length (active_items tm) \<le> 1"
  then show "length (active_items (click_header any_target j tm)) \<le> 1"
    by (rule click_at_most_one)
next
  assume a: "active_items tm = [A] \<and> A \<noteq> B"
  have "B \<notin> set (active_items tm)" using a by simp
  then have "\<not> is_active (tl_items tm ! B)"
    using assms(1) by (simp add: active_items_member)
  then show "active_items (click_header on_link B tm) = [B]"
    using listener_opens[OF assms(1) _ assms(3)]
    by (simp add: single_listener_click[OF assms(1,2)])
next
  assume a: "active_items tm = [B]"
  have "B \<in> set (active_items tm)" using a by simp
  then have "is_active (tl_items tm ! B)"
    by (simp add: active_items_member)
  then show "active_items (click_header on_link B tm) = []"
    using listener_closes[OF assms(1) _ assms(3)]
    by (simp add: single_listener_click[OF assms(1,2)])
qed

lemma timeline_AB_ready:
  "tl_items (initTimeline timeline_AB)
   = [item_A\<lparr>item_header := Some [TimelineListener]\<rparr>, item_B\<lparr>item_header := Some [TimelineListener]\<rparr>]"
  by (simp add: initTimeline_def timeline_AB_def add_listener_def item_A_def item_B_def)

lemma timeline_AB_active: "active_items (initTimeline timeline_AB) = [0]"
  by (simp add: active_items_def timeline_AB_ready is_active_def item_A_def item_B_def
      upt_conv_Cons)

text \<open>Items A (active) and B after \<open>initTimeline\<close>; a click on the header of B.\<close>

theorem accordion_click_single_listener_witness:
  "active_items (initTimeline timeline_AB) = [0]
   \<and> active_items (click_header False 1 (initTimeline timeline_AB)) = [1]
   \<and> length (active_items (click_header False 1 (initTimeline timeline_AB))) \<le> 1"
proof -
  have 1: "1 < length (tl_items (initTimeline timeline_AB))"
    by (simp add: timeline_AB_ready)
  have 2: "item_header (tl_items (initTimeline timeline_AB) ! 1) = Some [TimelineListener]"
    by (simp add: timeline_AB_ready item_B_def)
  have 3: "TimelineListener = TimelineListener \<longrightarrow> \<not> False"
    by simp
  show ?thesis
    using accordion_click_single_listener[OF 1 2 3, of False 1 0] timeline_AB_active
    by simp
qed

text \<open>
  Claim C7 as stated fails: with A active, a click on the header of B whose target is
  inside a \<open>.timeline-link\<close> returns from the listener at once; A stays active and B
  stays closed.
\<close>

theorem click_inside_timeline_link_toggles_nothing:
  "active_items (initTimeline timeline_AB) = [0]
   \<and> item_header (tl_items (initTimeline timeline_AB) ! 1) = Some [TimelineListener]
   \<and> active_items (click_header True 1 (initTimeline timeline_AB)) = [0]"
  by (simp add: timeline_AB_active click_header_def timeline_AB_ready item_B_def timeline_click_def)

text \<open>
  Why the listener count matters: \<open>reinitializeScripts\<close> adds its listener to every header
  in the document, also to one that \<open>initTimeline\<close> has served already; such a header
  toggles twice per click.
\<close>

lemma two_listeners_toggle_twice:
  "item_header (tl_items (reinit_timeline (initTimeline timeline_AB)) ! 1)
     = Some [TimelineListener, ReinitListener]
   \<and> active_items (click_header False 1 (reinit_timeline (initTimeline timeline_AB))) = []"
  by (simp add: click_header_def reinit_timeline_def timeline_AB_ready add_listener_def
      timeline_click_def reinit_click_def close_others_def active_items_def is_active_def
      activate_def deactivate_def classList_add_def classList_remove_def item_A_def item_B_def
      upt_conv_Cons Let_def)

text \<open>
  Claim C6 says that every DOM lookup is guarded. The timer callback of the accordion calls
  \<open>getBoundingClientRect\<close> on the result of \<open>querySelector('.timeline-container')\<close>
  without a test: in a document with timeline items and no such container, opening an item
  schedules the callback, and the callback throws a TypeError.
\<close>

theorem scroll_callback_without_container_throws:
  "scroll_timers (click_header False 1 (initTimeline timeline_no_container)) = [1]
   \<and> timer_fires (click_header False 1 (initTimeline timeline_no_container)) = Inl TypeError"
  by (simp add: click_header_def initTimeline_def timeline_no_container_def add_listener_def
      timeline_click_def is_active_def item_A_def item_B_def timer_fires_def scroll_callback_def
      Let_def)

section \<open>Properties of the particle system\<close>

lemma scaled_in_range:
  assumes "0 \<le> r" "r < 1"
  shows "0 \<le> r * real n" and "r * real n \<le> real n"
proof -
  show "0 \<le> r * real n" using assms(1) by simp
  have "r * real n \<le> 1 * real n"
    by (rule mult_right_mono) (use assms(2) in simp_all)
  then show "r * real n \<le> real n" by simp
qed

lemma inside_canvas_scaled:
  assumes "\<forall>k. 0 \<le> rnd k \<and> rnd k < 1"
  shows "inside_canvas w h (rnd i * real w, rnd j * real h)"
proof -
  have i: "0 \<le> rnd i" "rnd i < 1" and j: "0 \<le> rnd j" "rnd j < 1"
    using assms by simp_all
  show ?thesis
    unfolding inside_canvas_def fst_conv snd_conv
    using scaled_in_range[OF i, of w] scaled_in_range[OF j, of h] by blast
qed

lemma inside_canvas_within_margin:
  "inside_canvas w h p \<Longrightarrow> within_margin w h p"
  by (simp add: inside_canvas_def within_margin_def)

lemma star_position:
  "(star_x (new_star c w h rnd i), star_y (new_star c w h rnd i)) = (rnd i * w, rnd (i + 1) * h)"
  by (simp add: new_star_def Let_def)

lemma nebula_position:
  "(neb_x (new_nebula w h rnd i), neb_y (new_nebula w h rnd i)) = (rnd (i + 1) * w, rnd (i + 2) * h)"
  by (simp add: new_nebula_def Let_def)

lemma cluster_position:
  "(cl_x (new_cluster w h rnd i), cl_y (new_cluster w h rnd i)) = (rnd (i + 1) * w, rnd (i + 2) * h)"
  by (simp add: new_cluster_def Let_def)

lemma dust_position:
  "(dust_x (new_dust w h rnd i), dust_y (new_dust w h rnd i)) = (rnd i * w, rnd (i + 1) * h)"
  by (simp add: new_dust_def)

lemma list_all_push_each:
  assumes "\<And>i. P (f (mk i))"
  shows "list_all P (map f (push_each n per i0 mk))"
  by (simp add: push_each_def list_all_iff assms)

lemma length_push_each [simp]: "length (push_each n per i mk) = n"
  by (simp add: push_each_def)

lemma createStars_fields:
  "stars (createStars rnd ps) =
     push_each distantStarCount 9 (random_calls ps)
       (new_star distant_cfg (real (canvas_width ps)) (real (canvas_height ps)) rnd) @
     push_each midStarCount 9 (random_calls ps + 9 * distantStarCount)
       (new_star mid_cfg (real (canvas_width ps)) (real (canvas_height ps)) rnd) @
     push_each nearStarCount 9 (random_calls ps + 9 * distantStarCount + 9 * midStarCount)
       (new_star near_cfg (real (canvas_width ps)) (real (canvas_height ps)) rnd)"
  "nebulas (createStars rnd ps) =
     push_each nebulaCount 8
       (random_calls ps + 9 * distantStarCount + 9 * midStarCount + 9 * nearStarCount)
       (new_nebula (real (canvas_width ps)) (real (canvas_height ps)) rnd)"
  "clusters (createStars rnd ps) =
     push_each clusterCount 10
       (random_calls ps + 9 * distantStarCount + 9 * midStarCount + 9 * nearStarCount
          + 8 * nebulaCount)
       (new_cluster (real (canvas_width ps)) (real (canvas_height ps)) rnd)"
  "spaceDust (createStars rnd ps) =
     push_each dustCount 8
       (random_calls ps + 9 * distantStarCount + 9 * midStarCount + 9 * nearStarCount
          + 8 * nebulaCount + 10 * clusterCount)
       (new_dust (real (canvas_width ps)) (real (canvas_height ps)) rnd)"
  "canvas_width (createStars rnd ps) = canvas_width ps"
  "canvas_height (createStars rnd ps) = canvas_height ps"
  by (simp_all add: createStars_def createNebulas_def createClusters_def createSpaceDust_def Let_def)

text \<open>
  In exact arithmetic the particles lie on the canvas itself, \<open>[0, width] \<times> [0, height]\<close>;
  the margin of 10 is not needed.
\<close>

lemma createStars_inside:
  assumes "\<forall>k. 0 \<le> rnd k \<and> rnd k < 1"
  shows "list_all (inside_canvas (canvas_width ps) (canvas_height ps)) (positions (createStars rnd ps))"
proof -
  let ?P = "inside_canvas (canvas_width ps) (canvas_height ps)"
  have s: "\<And>c n per i0. list_all ?P (map (\<lambda>s. (star_x s, star_y s))
      (push_each n per i0 (new_star c (real (canvas_width ps)) (real (canvas_height ps)) rnd)))"
    by (rule list_all_push_each) (simp add: star_position inside_canvas_scaled[OF assms])
  have n: "\<And>n per i0. list_all ?P (map (\<lambda>n. (neb_x n, neb_y n))
      (push_each n per i0 (new_nebula (real (canvas_width ps)) (real (canvas_height ps)) rnd)))"
    by (rule list_all_push_each) (simp add: nebula_position inside_canvas_scaled[OF assms])
  have c: "\<And>n per i0. list_all ?P (map (\<lambda>c. (cl_x c, cl_y c))
      (push_each n per i0 (new_cluster (real (canvas_width ps)) (real (canvas_height ps)) rnd)))"
    by (rule list_all_push_each) (simp add: cluster_position inside_canvas_scaled[OF assms])
  have d: "\<And>n per i0. list_all ?P (map (\<lambda>d. (dust_x d, dust_y d))
      (push_each n per i0 (new_dust (real (canvas_width ps)) (real (canvas_height ps)) rnd)))"
    by (rule list_all_push_each) (simp add: dust_position inside_canvas_scaled[OF assms])
  show ?thesis
    unfolding positions_def createStars_fields
    using s n c d by simp
qed

lemma createStars_within:
  assumes "\<forall>k. 0 \<le> rnd k \<and> rnd k < 1"
  shows "list_all (within_margin (canvas_width ps) (canvas_height ps)) (positions (createStars rnd ps))"
  using createStars_inside[OF assms, of ps]
  by (simp add: list_all_iff inside_canvas_within_margin)

lemma createStars_counts:
  "length (stars (createStars rnd ps)) = 500"
  "length (nebulas (createStars rnd ps)) = 8"
  "length (clusters (createStars rnd ps)) = 4"
  "length (spaceDust (createStars rnd ps)) = 80"
  by (simp_all add: createStars_fields distantStarCount_def midStarCount_def nearStarCount_def
      nebulaCount_def clusterCount_def dustCount_def)

lemma debounce_after_resize:
  "debounce_fires rnd (resizeCanvas w h ps)
   = createStars rnd ((clearTimeout (resizeTimeout ps) (ps\<lparr>canvas_width := w, canvas_height := h\<rparr>))
        \<lparr>resizeTimeout := Some (next_handle ps), next_handle := Suc (next_handle ps),
         timeouts := removeAll (next_handle ps)
            (timeouts (clearTimeout (resizeTimeout ps) (ps\<lparr>canvas_width := w, canvas_height := h\<rparr>)) @ [next_handle ps])\<rparr>)"
  by (simp add: debounce_fires_def resizeCanvas_def clearTimeout_def Let_def split: option.splits)

lemma debounce_canvas:
  "canvas_width (debounce_fires rnd (resizeCanvas w h ps)) = w"
  "canvas_height (debounce_fires rnd (resizeCanvas w h ps)) = h"
  by (simp_all add: debounce_after_resize createStars_fields clearTimeout_def split: option.splits)

subsection \<open>Regenerated particles\<close>

text \<open>
  Claim C9. For every canvas size and every random sequence with values in \<open>[0, 1)\<close>,
  the particles \<open>createStars\<close> makes (500 stars, 8 nebulas, 4 clusters, 80 dust particles)
  all lie in \<open>[-10, width + 10] \<times> [-10, height + 10]\<close>; so do the particles made when
  the timer of \<open>resizeCanvas\<close> fires, for the size the window was resized to.
\<close>

theorem regenerated_particles_within_margin:
  assumes "\<forall>k. 0 \<le> rnd k \<and> rnd k < 1"
  shows "list_all (within_margin (canvas_width ps) (canvas_height ps)) (positions (createStars rnd ps))
       \<and> length (positions (createStars rnd ps)) = 592
       \<and> list_all (within_margin w h) (positions (debounce_fires rnd (resizeCanvas w h ps)))
       \<and> length (positions (debounce_fires rnd (resizeCanvas w h ps))) = 592"
proof -
  have a: "list_all (within_margin (canvas_width ps) (canvas_height ps)) (positions (createStars rnd ps))"
    by (rule createStars_within[OF assms])
  have b: "\<And>q. length (positions (createStars rnd q)) = 592"
    by (simp add: positions_def createStars_counts)
  define q where "q = (clearTimeout (resizeTimeout ps) (ps\<lparr>canvas_width := w, canvas_height := h\<rparr>))
        \<lparr>resizeTimeout := Some (next_handle ps), next_handle := Suc (next_handle ps),
         timeouts := removeAll (next_handle ps)
            (timeouts (clearTimeout (resizeTimeout ps) (ps\<lparr>canvas_width := w, canvas_height := h\<rparr>)) @ [next_handle ps])\<rparr>"
  have dq: "debounce_fires rnd (resizeCanvas w h ps) = createStars rnd q"
    by (simp add: debounce_after_resize q_def)
  have wq: "canvas_width q = w" "canvas_height q = h"
    by (simp_all add: q_def clearTimeout_def split: option.splits)
  have c: "list_all (within_margin w h) (positions (createStars rnd q))"
    using createStars_within[OF assms, of q] by (simp add: wq)
  show ?thesis using a b c by (simp add: dq)
qed

text \<open>A resize to 1024 by 768, with every random value one half.\<close>

theorem regenerated_particles_within_margin_witness:
  "list_all (within_margin 1024 768) (positions (debounce_fires half (resizeCanvas 1024 768 running_particles)))
   \<and> length (positions (debounce_fires half (resizeCanvas 1024 768 running_particles))) = 592"
proof -
  have h: "\<forall>k. 0 \<le> half k \<and> half k < 1"
    by (simp add: half_def)
  show ?thesis
    using regenerated_particles_within_margin[OF h, of running_particles 1024 768] by simp
qed

lemma destroy_unresolved_identifier:
  assumes "map_of (global_vars ps) ''shootingStarIntervalId'' = None"
  shows "\<exists>ps'. destroy ps = Threw ReferenceError ps'
           \<and> listeners ps' = listeners ps
           \<and> canvas_in_document ps' = canvas_in_document ps"
  using assms
  by (simp add: destroy_def cancelAnimationFrame_def Let_def split: option.splits)

subsection \<open>\<open>ParticleSystem.destroy\<close>\<close>

text \<open>
  Claim C8 says that \<open>destroy\<close> stops the loop, removes the three listeners and the canvas,
  and raises no error. On a running particle system the frame request is cancelled, then
  reading \<open>shootingStarIntervalId\<close> throws a ReferenceError: the listeners stay
  registered and the canvas stays in the document.
\<close>

theorem destroy_throws_before_cleanup:
  "destroy running_particles = Threw ReferenceError (running_particles\<lparr>frame_requests := []\<rparr>)
   \<and> listeners (running_particles\<lparr>frame_requests := []\<rparr>)
       = [(''window'', ''resize'', ''resizeCanvas''),
          (''document'', ''visibilitychange'', ''handleVisibilityChange''),
          (''window'', ''pageshow'', ''handlePageShow'')]
   \<and> canvas_in_document (running_particles\<lparr>frame_requests := []\<rparr>)"
  by (simp add: destroy_def running_particles_def cancelAnimationFrame_def Let_def)

text \<open>With a global of that name defined by some other script, the call runs to its end.\<close>

lemma destroy_with_global_defined:
  "destroy (running_particles\<lparr>global_vars := [(''shootingStarIntervalId'', 0)]\<rparr>)
   = Done (running_particles\<lparr>global_vars := [(''shootingStarIntervalId'', 0)],
        frame_requests := [], listeners := [], canvas_in_document := False\<rparr>)"
  by (simp add: destroy_def running_particles_def cancelAnimationFrame_def clearTimeout_def
      removeEventListener_def Let_def)

end
